theory Spec2Isabelle
  imports Main "HOL-Library.Multiset"
begin

section \<open>The ABAC policy engine of \<^verbatim>\<open>abac.go\<close>\<close>

text \<open>
  The package holds a list of policy rules and decides, for a user and a resource, whether
  some rule allows the request. Go strings are byte sequences compared bytewise, so they
  are \<^typ>\<open>string\<close> here; a slice of strings is a list, the nil slice being the empty list.
\<close>

subsection \<open>Data\<close>

text \<open>\<^verbatim>\<open>type PolicySpec struct\<close>, field for field.\<close>

record PolicySpec =
  Role :: string
  User :: string
  Group :: string
  Resource :: string
  Namespace :: string
  ReadOnly :: bool
  NonResourcePath :: string

text \<open>\<^verbatim>\<open>type UserAttributes struct\<close>.\<close>

record UserAttributes =
  UserID :: string
  GroupID :: string
  Roles :: "string list"

text \<open>
  \<^verbatim>\<open>type ResourceAttributes struct\<close>. Three of its fields have the names of fields
  of \<^verbatim>\<open>PolicySpec\<close>; the selectors are told apart by the record's name, as in
  \<open>PolicySpec.Resource\<close> and \<open>ResourceAttributes.Resource\<close>.
\<close>

record ResourceAttributes =
  Resource :: string
  Namespace :: string
  ReadOnly :: bool

text \<open>\<^verbatim>\<open>type PolicyManager struct { policies []PolicySpec }\<close>.\<close>

record PolicyManager =
  policies :: "PolicySpec list"

text \<open>
  The ways the code panics: dereferencing a nil \<^verbatim>\<open>*UserAttributes\<close> or
  \<^verbatim>\<open>*ResourceAttributes\<close>, and the two explicit panics of
  \<^verbatim>\<open>WithPoliciesFromFile\<close>.
\<close>

datatype error = NilPointerDereference | OpenFailed | DecodeFailed

subsection \<open>Matching\<close>

text \<open>
  \<^verbatim>\<open>func matchesString(pattern, value string) bool {
    return pattern == "*" || pattern == "" || pattern == value }\<close>
\<close>

definition matchesString :: "string \<Rightarrow> string \<Rightarrow> bool" where
  "matchesString pattern v = (pattern = ''*'' \<or> pattern = '''' \<or> pattern = v)"

text \<open>
  The loop of \<^verbatim>\<open>matchesSlice\<close>:
  \<^verbatim>\<open>for _, v := range list { if v == pattern { return true } }; return false\<close>
\<close>

fun matchesSlice_range :: "string \<Rightarrow> string list \<Rightarrow> bool" where
  "matchesSlice_range pattern [] = False"
| "matchesSlice_range pattern (v # list) =
     (if v = pattern then True else matchesSlice_range pattern list)"

text \<open>
  \<^verbatim>\<open>func matchesSlice(pattern string, list []string) bool {
    if pattern == "*" || pattern == "" { return true }
    for ... }\<close>
\<close>

definition matchesSlice :: "string \<Rightarrow> string list \<Rightarrow> bool" where
  "matchesSlice pattern list =
     (if pattern = ''*'' \<or> pattern = '''' then True else matchesSlice_range pattern list)"

text \<open>
  \<^verbatim>\<open>matchPolicy\<close> takes the user and the resource by pointer; a nil pointer is
  \<open>None\<close>. The seven conditions are joined by \<^verbatim>\<open>&&\<close>, which evaluates from the left
  and stops at the first false one. The first condition reads \<^verbatim>\<open>user.Roles\<close>, so a nil
  user panics at once; \<^verbatim>\<open>resource\<close> is first read by the fourth condition, so a nil
  resource panics only when the first three conditions hold. The receiver is not read.
\<close>

definition matchPolicy ::
  "PolicySpec \<Rightarrow> UserAttributes option \<Rightarrow> ResourceAttributes option \<Rightarrow> error + bool" where
  "matchPolicy policy user resource =
     (case user of
        None \<Rightarrow> Inl NilPointerDereference
      | Some u \<Rightarrow>
          if matchesSlice (Role policy) (Roles u) \<and>
             matchesString (User policy) (UserID u) \<and>
             matchesString (Group policy) (GroupID u)
          then (case resource of
                  None \<Rightarrow> Inl NilPointerDereference
                | Some r \<Rightarrow>
                    Inr (matchesString (PolicySpec.Resource policy) (ResourceAttributes.Resource r) \<and>
                         matchesString (PolicySpec.Namespace policy) (ResourceAttributes.Namespace r) \<and>
                         matchesString (NonResourcePath policy) (ResourceAttributes.Resource r) \<and>
                         (PolicySpec.ReadOnly policy = ResourceAttributes.ReadOnly r)))
          else Inr False)"

text \<open>
  The loop of \<^verbatim>\<open>Evaluate\<close>:
  \<^verbatim>\<open>for _, policy := range p.policies {
    if p.matchPolicy(policy, user, resource) { return true } }; return false\<close>
  A panic of \<^verbatim>\<open>matchPolicy\<close> ends the loop with that panic.
\<close>

fun Evaluate_range ::
  "PolicySpec list \<Rightarrow> UserAttributes option \<Rightarrow> ResourceAttributes option \<Rightarrow> error + bool" where
  "Evaluate_range [] user resource = Inr False"
| "Evaluate_range (policy # rest) user resource =
     (case matchPolicy policy user resource of
        Inl e \<Rightarrow> Inl e
      | Inr b \<Rightarrow> if b then Inr True else Evaluate_range rest user resource)"

text \<open>
  \<^verbatim>\<open>func (p *PolicyManager) Evaluate(user *UserAttributes, resource *ResourceAttributes) bool\<close>.
  The receiver is a manager built by \<^verbatim>\<open>NewPolicyManager\<close>, which never returns nil.
\<close>

definition Evaluate ::
  "PolicyManager \<Rightarrow> UserAttributes option \<Rightarrow> ResourceAttributes option \<Rightarrow> error + bool" where
  "Evaluate p user resource = Evaluate_range (policies p) user resource"

subsection \<open>Construction\<close>

text \<open>\<^verbatim>\<open>func defaultPolicies() []PolicySpec\<close>: the table of two rules.\<close>

definition defaultPolicies :: "PolicySpec list" where
  "defaultPolicies =
     [\<lparr>Role = ''*'', User = ''*'', Group = ''*'', PolicySpec.Resource = ''*'', PolicySpec.Namespace = ''*'',
       PolicySpec.ReadOnly = True, NonResourcePath = ''*''\<rparr>,
      \<lparr>Role = ''admin'', User = ''*'', Group = ''*'', PolicySpec.Resource = ''*'', PolicySpec.Namespace = ''*'',
       PolicySpec.ReadOnly = False, NonResourcePath = ''*''\<rparr>]"

text \<open>
  \<^verbatim>\<open>type PolicyOption func(*PolicyManager)\<close>: an option updates the manager in place, or
  panics. Here it returns the updated manager, or the panic.
\<close>

type_synonym PolicyOption = "PolicyManager \<Rightarrow> error + PolicyManager"

text \<open>\<^verbatim>\<open>p.policies = append(p.policies, defaultPolicies()...)\<close>\<close>

definition WithDefaultPolicies :: PolicyOption where
  "WithDefaultPolicies p = Inr (p\<lparr>policies := policies p @ defaultPolicies\<rparr>)"

text \<open>\<^verbatim>\<open>p.policies = append(p.policies, policies...)\<close>\<close>

definition WithPolicies :: "PolicySpec list \<Rightarrow> PolicyOption" where
  "WithPolicies ps p = Inr (p\<lparr>policies := policies p @ ps\<rparr>)"

text \<open>
  What \<^verbatim>\<open>os.Open\<close> followed by \<^verbatim>\<open>json.NewDecoder(file).Decode\<close> yields for a
  file name: the file cannot be opened, its content does not decode, or the decoded rules.
  The file system and the JSON decoder are outside the package, so
  \<^verbatim>\<open>WithPoliciesFromFile\<close> takes this outcome as a parameter.
\<close>

datatype file_outcome = CannotOpen | CannotDecode | Decoded "PolicySpec list"

definition WithPoliciesFromFile :: "(string \<Rightarrow> file_outcome) \<Rightarrow> string \<Rightarrow> PolicyOption" where
  "WithPoliciesFromFile files filename p =
     (case files filename of
        CannotOpen \<Rightarrow> Inl OpenFailed
      | CannotDecode \<Rightarrow> Inl DecodeFailed
      | Decoded newPolicies \<Rightarrow> Inr (p\<lparr>policies := policies p @ newPolicies\<rparr>))"

text \<open>The loop of \<^verbatim>\<open>NewPolicyManager\<close>: \<^verbatim>\<open>for _, opt := range opts { opt(p) }\<close>.\<close>

fun NewPolicyManager_range :: "PolicyOption list \<Rightarrow> PolicyManager \<Rightarrow> error + PolicyManager" where
  "NewPolicyManager_range [] p = Inr p"
| "NewPolicyManager_range (opt # opts) p =
     (case opt p of Inl e \<Rightarrow> Inl e | Inr p' \<Rightarrow> NewPolicyManager_range opts p')"

text \<open>\<^verbatim>\<open>p := &PolicyManager{}\<close>: the manager starts with no rule.\<close>

definition NewPolicyManager :: "PolicyOption list \<Rightarrow> error + PolicyManager" where
  "NewPolicyManager opts = NewPolicyManager_range opts \<lparr>policies = []\<rparr>"

section \<open>Properties\<close>

subsection \<open>Helper facts\<close>

lemma matchesSlice_range_mem: "matchesSlice_range pattern list = (pattern \<in> set list)"
  by (induction list) auto

lemma matchesSlice_set:
  "matchesSlice pattern list = (pattern = ''*'' \<or> pattern = '''' \<or> pattern \<in> set list)"
  by (simp add: matchesSlice_def matchesSlice_range_mem)

text \<open>The conjunction a rule checks on a present user and a present resource.\<close>

lemma matchPolicy_present:
  "matchPolicy policy (Some u) (Some r) =
     Inr (matchesSlice (Role policy) (Roles u) \<and>
          matchesString (User policy) (UserID u) \<and>
          matchesString (Group policy) (GroupID u) \<and>
          matchesString (PolicySpec.Resource policy) (ResourceAttributes.Resource r) \<and>
          matchesString (PolicySpec.Namespace policy) (ResourceAttributes.Namespace r) \<and>
          matchesString (NonResourcePath policy) (ResourceAttributes.Resource r) \<and>
          (PolicySpec.ReadOnly policy = ResourceAttributes.ReadOnly r))"
  by (auto simp: matchPolicy_def)

text \<open>The loop on a present user and a present resource: some rule of the list matches.\<close>

lemma Evaluate_range_present:
  "Evaluate_range ps (Some u) (Some r) =
     Inr (\<exists>policy \<in> set ps. matchPolicy policy (Some u) (Some r) = Inr True)"
  by (induction ps) (auto simp: matchPolicy_present)

text \<open>A nil user panics at the first rule, whatever the rule is.\<close>

lemma Evaluate_range_nil_user:
  "Evaluate_range ps None resource = (if ps = [] then Inr False else Inl NilPointerDereference)"
  by (cases ps) (simp_all add: matchPolicy_def)

text \<open>
  A nil resource panics at the first rule whose role, user and group conditions hold; the
  rules before it are false.
\<close>

lemma Evaluate_range_nil_resource:
  "Evaluate_range ps (Some u) None =
     (if \<exists>policy \<in> set ps. matchesSlice (Role policy) (Roles u) \<and>
            matchesString (User policy) (UserID u) \<and> matchesString (Group policy) (GroupID u)
      then Inl NilPointerDereference else Inr False)"
  by (induction ps) (auto simp: matchPolicy_def)

text \<open>The loop reads a rule only through \<open>matchPolicy\<close>.\<close>

lemma Evaluate_range_outcomes:
  "map (\<lambda>policy. matchPolicy policy user resource) ps =
   map (\<lambda>policy. matchPolicy policy user resource) qs \<Longrightarrow>
   Evaluate_range ps user resource = Evaluate_range qs user resource"
proof (induction ps arbitrary: qs)
  case Nil
  then show ?case by simp
next
  case (Cons a ps)
  then obtain b qs' where qs: "qs = b # qs'" by (cases qs) auto
  with Cons.prems have "matchPolicy a user resource = matchPolicy b user resource"
    and "map (\<lambda>policy. matchPolicy policy user resource) ps =
         map (\<lambda>policy. matchPolicy policy user resource) qs'"
    by simp_all
  with Cons.IH [of qs'] qs show ?case by (simp split: sum.splits)
qed

text \<open>The loop stops at the first rule that matches: the rules after it are not read.\<close>

lemma Evaluate_range_first_match:
  "\<forall>q \<in> set pre. matchPolicy q user resource = Inr False \<Longrightarrow>
   matchPolicy policy user resource = Inr True \<Longrightarrow>
   Evaluate_range (pre @ policy # post) user resource = Inr True"
  by (induction pre) simp_all

text \<open>A result of true is kept when rules are appended.\<close>

lemma Evaluate_range_append_true:
  "Evaluate_range s user resource = Inr True \<Longrightarrow>
   Evaluate_range (s @ t) user resource = Inr True"
  by (induction s) (auto split: sum.splits if_splits)

text \<open>Both wildcards match everything.\<close>

lemma matchesString_wildcard: "matchesString ''*'' v" "matchesString '''' v"
  by (simp_all add: matchesString_def)

lemma matchesSlice_wildcard: "matchesSlice ''*'' list" "matchesSlice '''' list"
  by (simp_all add: matchesSlice_def)

subsection \<open>The matching predicate\<close>

text \<open>
  C1: a rule matches a request (a user and a resource) if and only if all seven conditions
  hold: the role pattern is \<open>*\<close> or empty or equals an entry of the user's roles; the user
  pattern is \<open>*\<close> or empty or equals the user's ID; the group pattern is \<open>*\<close> or empty or
  equals the user's group ID; the resource pattern is \<open>*\<close> or empty or equals the
  resource's name; the namespace pattern is \<open>*\<close> or empty or equals the resource's
  namespace; the path pattern is \<open>*\<close> or empty or equals the resource's name (the name is
  reused as the path); and the rule's read-only flag equals the resource's.
\<close>

theorem matchPolicy_seven_conditions:
  "matchPolicy policy (Some u) (Some r) =
     Inr ((Role policy = ''*'' \<or> Role policy = '''' \<or> Role policy \<in> set (Roles u)) \<and>
          (User policy = ''*'' \<or> User policy = '''' \<or> User policy = UserID u) \<and>
          (Group policy = ''*'' \<or> Group policy = '''' \<or> Group policy = GroupID u) \<and>
          (PolicySpec.Resource policy = ''*'' \<or> PolicySpec.Resource policy = '''' \<or>
             PolicySpec.Resource policy = ResourceAttributes.Resource r) \<and>
          (PolicySpec.Namespace policy = ''*'' \<or> PolicySpec.Namespace policy = '''' \<or>
             PolicySpec.Namespace policy = ResourceAttributes.Namespace r) \<and>
          (NonResourcePath policy = ''*'' \<or> NonResourcePath policy = '''' \<or>
             NonResourcePath policy = ResourceAttributes.Resource r) \<and>
          (PolicySpec.ReadOnly policy = ResourceAttributes.ReadOnly r))"
  by (simp add: matchPolicy_present matchesSlice_set matchesString_def)

text \<open>
  The rule, user and resource of the package's test "Matching policy", and the same rule
  on a read-only request for another resource.
\<close>

theorem matchPolicy_seven_conditions_witness:
  "matchPolicy
     \<lparr>Role = ''admin'', User = ''user1'', Group = '''', PolicySpec.Resource = ''resource1'',
      PolicySpec.Namespace = '''', PolicySpec.ReadOnly = False, NonResourcePath = ''''\<rparr>
     (Some \<lparr>UserID = ''user1'', GroupID = ''group1'', Roles = [''admin'']\<rparr>)
     (Some \<lparr>ResourceAttributes.Resource = ''resource1'',
            ResourceAttributes.Namespace = ''namespace1'',
            ResourceAttributes.ReadOnly = False\<rparr>) = Inr True \<and>
   matchPolicy
     \<lparr>Role = ''admin'', User = ''user1'', Group = '''', PolicySpec.Resource = ''resource1'',
      PolicySpec.Namespace = '''', PolicySpec.ReadOnly = False, NonResourcePath = ''''\<rparr>
     (Some \<lparr>UserID = ''user1'', GroupID = ''group1'', Roles = [''admin'']\<rparr>)
     (Some \<lparr>ResourceAttributes.Resource = ''resource2'',
            ResourceAttributes.Namespace = ''namespace1'',
            ResourceAttributes.ReadOnly = True\<rparr>) = Inr False"
  by (simp add: matchPolicy_seven_conditions)

subsection \<open>Evaluation\<close>

text \<open>
  C2: for every store and every request, \<open>Evaluate\<close> returns true if and only if at least
  one rule of the store matches the request. The loop stops at the first match in store
  order: when a rule matches and every rule before it does not, the result is true
  whatever rules follow. For an empty store \<open>Evaluate\<close> returns false for every request
  (also for a nil user or resource, which no rule then reads).
\<close>

theorem Evaluate_some_rule_matches:
  "Evaluate p (Some u) (Some r) =
     Inr (\<exists>policy \<in> set (policies p). matchPolicy policy (Some u) (Some r) = Inr True) \<and>
   ((\<forall>q \<in> set pre. matchPolicy q user resource = Inr False) \<and>
    matchPolicy policy user resource = Inr True \<longrightarrow>
      Evaluate \<lparr>policies = pre @ policy # post\<rparr> user resource = Inr True) \<and>
   Evaluate \<lparr>policies = []\<rparr> user resource = Inr False"
  using Evaluate_range_first_match [of pre user resource policy post]
  by (simp add: Evaluate_def Evaluate_range_present)

text \<open>
  A store of two rules: the first is for another user, the second matches. A third rule
  after the match does not change the result.
\<close>

theorem Evaluate_some_rule_matches_witness:
  "Evaluate
     \<lparr>policies =
        [\<lparr>Role = ''admin'', User = ''user1'', Group = '''', PolicySpec.Resource = ''resource1'',
          PolicySpec.Namespace = '''', PolicySpec.ReadOnly = False, NonResourcePath = ''''\<rparr>,
         \<lparr>Role = ''*'', User = ''user2'', Group = '''', PolicySpec.Resource = ''*'',
          PolicySpec.Namespace = '''', PolicySpec.ReadOnly = False, NonResourcePath = ''''\<rparr>]\<rparr>
     (Some \<lparr>UserID = ''user2'', GroupID = ''group1'', Roles = [''admin'']\<rparr>)
     (Some \<lparr>ResourceAttributes.Resource = ''resource1'',
            ResourceAttributes.Namespace = ''namespace1'',
            ResourceAttributes.ReadOnly = False\<rparr>) = Inr True \<and>
   Evaluate
     \<lparr>policies =
        [\<lparr>Role = ''admin'', User = ''user1'', Group = '''', PolicySpec.Resource = ''resource1'',
          PolicySpec.Namespace = '''', PolicySpec.ReadOnly = False, NonResourcePath = ''''\<rparr>] @
        \<lparr>Role = ''*'', User = ''user2'', Group = '''', PolicySpec.Resource = ''*'',
          PolicySpec.Namespace = '''', PolicySpec.ReadOnly = False, NonResourcePath = ''''\<rparr> #
        [\<lparr>Role = ''guest'', User = ''user3'', Group = '''', PolicySpec.Resource = ''*'',
          PolicySpec.Namespace = '''', PolicySpec.ReadOnly = True, NonResourcePath = ''''\<rparr>]\<rparr>
     (Some \<lparr>UserID = ''user2'', GroupID = ''group1'', Roles = [''admin'']\<rparr>)
     (Some \<lparr>ResourceAttributes.Resource = ''resource1'',
            ResourceAttributes.Namespace = ''namespace1'',
            ResourceAttributes.ReadOnly = False\<rparr>) = Inr True \<and>
   Evaluate \<lparr>policies = []\<rparr> None None = Inr False"
  using Evaluate_some_rule_matches
    [of "\<lparr>policies =
        [\<lparr>Role = ''admin'', User = ''user1'', Group = '''', PolicySpec.Resource = ''resource1'',
          PolicySpec.Namespace = '''', PolicySpec.ReadOnly = False, NonResourcePath = ''''\<rparr>,
         \<lparr>Role = ''*'', User = ''user2'', Group = '''', PolicySpec.Resource = ''*'',
          PolicySpec.Namespace = '''', PolicySpec.ReadOnly = False, NonResourcePath = ''''\<rparr>]\<rparr>"
       "\<lparr>UserID = ''user2'', GroupID = ''group1'', Roles = [''admin'']\<rparr>"
       "\<lparr>ResourceAttributes.Resource = ''resource1'',
            ResourceAttributes.Namespace = ''namespace1'',
            ResourceAttributes.ReadOnly = False\<rparr>"
       "[\<lparr>Role = ''admin'', User = ''user1'', Group = '''', PolicySpec.Resource = ''resource1'',
          PolicySpec.Namespace = '''', PolicySpec.ReadOnly = False, NonResourcePath = ''''\<rparr>]"
       "Some \<lparr>UserID = ''user2'', GroupID = ''group1'', Roles = [''admin'']\<rparr>"
       "Some \<lparr>ResourceAttributes.Resource = ''resource1'',
            ResourceAttributes.Namespace = ''namespace1'',
            ResourceAttributes.ReadOnly = False\<rparr>"
       "\<lparr>Role = ''*'', User = ''user2'', Group = '''', PolicySpec.Resource = ''*'',
          PolicySpec.Namespace = '''', PolicySpec.ReadOnly = False, NonResourcePath = ''''\<rparr>"
       "[\<lparr>Role = ''guest'', User = ''user3'', Group = '''', PolicySpec.Resource = ''*'',
          PolicySpec.Namespace = '''', PolicySpec.ReadOnly = True, NonResourcePath = ''''\<rparr>]"]
    Evaluate_some_rule_matches [of _ _ _ _ None None]
  by (simp add: matchPolicy_present matchesSlice_set matchesString_def)

text \<open>
  C3 as stated: the store holds exactly the rule with role \<open>admin\<close>, user pattern \<open>*\<close>,
  resource \<open>resource1\<close>, the other patterns wildcards, not read-only; the user is
  \<open>user2\<close> with the role \<open>admin\<close>; the resource is \<open>resource1\<close>, not read-only; and
  \<open>Evaluate\<close> is said to return false. It returns true: the user pattern \<open>*\<close> matches
  \<open>user2\<close>. The fields the scenario leaves out are Go's zero values; the wildcards are
  written \<open>*\<close> in the first store and left empty in the second.
\<close>

theorem scenario_B_wildcard_user_counterexample:
  "Evaluate
     \<lparr>policies =
        [\<lparr>Role = ''admin'', User = ''*'', Group = ''*'', PolicySpec.Resource = ''resource1'',
          PolicySpec.Namespace = ''*'', PolicySpec.ReadOnly = False, NonResourcePath = ''*''\<rparr>]\<rparr>
     (Some \<lparr>UserID = ''user2'', GroupID = '''', Roles = [''admin'']\<rparr>)
     (Some \<lparr>ResourceAttributes.Resource = ''resource1'', ResourceAttributes.Namespace = '''',
            ResourceAttributes.ReadOnly = False\<rparr>) = Inr True \<and>
   Evaluate
     \<lparr>policies =
        [\<lparr>Role = ''admin'', User = ''*'', Group = '''', PolicySpec.Resource = ''resource1'',
          PolicySpec.Namespace = '''', PolicySpec.ReadOnly = False, NonResourcePath = ''''\<rparr>]\<rparr>
     (Some \<lparr>UserID = ''user2'', GroupID = '''', Roles = [''admin'']\<rparr>)
     (Some \<lparr>ResourceAttributes.Resource = ''resource1'', ResourceAttributes.Namespace = '''',
            ResourceAttributes.ReadOnly = False\<rparr>) \<noteq> Inr False"
  by (simp add: Evaluate_def matchPolicy_def matchesSlice_def matchesString_def)

text \<open>
  C3, amended: with the store holding exactly the rule of the package's test
  "Non-matching policy", whose user pattern is \<open>user1\<close> (role \<open>admin\<close>, resource
  \<open>resource1\<close>, the group, namespace and path patterns wildcards, not read-only), the user
  \<open>user2\<close> with the role \<open>admin\<close> and the resource \<open>resource1\<close>, not read-only,
  \<open>Evaluate\<close> returns false, whatever the user's group and the resource's namespace are.
  With the user pattern \<open>*\<close> in place of \<open>user1\<close> it returns true.
\<close>

theorem scenario_B_user1_rule:
  assumes "wg = ''*'' \<or> wg = ''''" and "wn = ''*'' \<or> wn = ''''" and "wp = ''*'' \<or> wp = ''''"
  shows
    "Evaluate
       \<lparr>policies =
          [\<lparr>Role = ''admin'', User = ''user1'', Group = wg, PolicySpec.Resource = ''resource1'',
            PolicySpec.Namespace = wn, PolicySpec.ReadOnly = False, NonResourcePath = wp\<rparr>]\<rparr>
       (Some \<lparr>UserID = ''user2'', GroupID = g, Roles = [''admin'']\<rparr>)
       (Some \<lparr>ResourceAttributes.Resource = ''resource1'', ResourceAttributes.Namespace = ns,
              ResourceAttributes.ReadOnly = False\<rparr>) = Inr False \<and>
     Evaluate
       \<lparr>policies =
          [\<lparr>Role = ''admin'', User = ''*'', Group = wg, PolicySpec.Resource = ''resource1'',
            PolicySpec.Namespace = wn, PolicySpec.ReadOnly = False, NonResourcePath = wp\<rparr>]\<rparr>
       (Some \<lparr>UserID = ''user2'', GroupID = g, Roles = [''admin'']\<rparr>)
       (Some \<lparr>ResourceAttributes.Resource = ''resource1'', ResourceAttributes.Namespace = ns,
              ResourceAttributes.ReadOnly = False\<rparr>) = Inr True"
  using assms
  by (auto simp: Evaluate_def matchPolicy_present matchesSlice_set matchesString_def)

text \<open>The test "Non-matching policy" itself: group \<open>group1\<close>, namespace \<open>namespace1\<close>.\<close>

theorem scenario_B_user1_rule_witness:
  "Evaluate
     \<lparr>policies =
        [\<lparr>Role = ''admin'', User = ''user1'', Group = '''', PolicySpec.Resource = ''resource1'',
          PolicySpec.Namespace = '''', PolicySpec.ReadOnly = False, NonResourcePath = ''''\<rparr>]\<rparr>
     (Some \<lparr>UserID = ''user2'', GroupID = ''group1'', Roles = [''admin'']\<rparr>)
     (Some \<lparr>ResourceAttributes.Resource = ''resource1'',
            ResourceAttributes.Namespace = ''namespace1'',
            ResourceAttributes.ReadOnly = False\<rparr>) = Inr False"
  using scenario_B_user1_rule [of "''''" "''''" "''''" "''group1''" "''namespace1''"]
  by simp

text \<open>
  C4: for every rule whose role, user, group, resource, namespace and path patterns are all
  wildcards (\<open>*\<close> or empty) and every request, \<open>Evaluate\<close> over the store holding that one
  rule returns the value of "the request's read-only flag equals the rule's". The flag has
  no wildcard: no rule, wildcarded or not, matches a request whose read-only flag differs
  from its own.
\<close>

theorem Evaluate_wildcard_rule_readOnly:
  assumes "Role rule = ''*'' \<or> Role rule = ''''"
    and "User rule = ''*'' \<or> User rule = ''''"
    and "Group rule = ''*'' \<or> Group rule = ''''"
    and "PolicySpec.Resource rule = ''*'' \<or> PolicySpec.Resource rule = ''''"
    and "PolicySpec.Namespace rule = ''*'' \<or> PolicySpec.Namespace rule = ''''"
    and "NonResourcePath rule = ''*'' \<or> NonResourcePath rule = ''''"
  shows
    "Evaluate \<lparr>policies = [rule]\<rparr> (Some u) (Some r) =
       Inr (ResourceAttributes.ReadOnly r = PolicySpec.ReadOnly rule) \<and>
     (PolicySpec.ReadOnly policy \<noteq> ResourceAttributes.ReadOnly r' \<longrightarrow>
        matchPolicy policy user (Some r') \<noteq> Inr True \<and>
        Evaluate \<lparr>policies = [policy]\<rparr> user (Some r') \<noteq> Inr True)"
proof -
  have "Evaluate \<lparr>policies = [rule]\<rparr> (Some u) (Some r) =
          Inr (ResourceAttributes.ReadOnly r = PolicySpec.ReadOnly rule)"
    using assms
    by (auto simp: Evaluate_def matchPolicy_present matchesSlice_set matchesString_def)
  moreover have "matchPolicy policy user (Some r') \<noteq> Inr True"
    if "PolicySpec.ReadOnly policy \<noteq> ResourceAttributes.ReadOnly r'"
    using that by (cases user) (auto simp: matchPolicy_def)
  moreover have "Evaluate \<lparr>policies = [policy]\<rparr> user (Some r') \<noteq> Inr True"
    if "PolicySpec.ReadOnly policy \<noteq> ResourceAttributes.ReadOnly r'"
    using that by (cases user) (auto simp: Evaluate_def matchPolicy_def)
  ultimately show ?thesis by blast
qed

text \<open>
  The first default rule, read-only with every pattern \<open>*\<close>, on a read-only request and on
  a write; and the rule of the test "Matching policy", not read-only, on a read-only
  request.
\<close>

theorem Evaluate_wildcard_rule_readOnly_witness:
  "Evaluate
     \<lparr>policies =
        [\<lparr>Role = ''*'', User = ''*'', Group = ''*'', PolicySpec.Resource = ''*'',
          PolicySpec.Namespace = ''*'', PolicySpec.ReadOnly = True, NonResourcePath = ''*''\<rparr>]\<rparr>
     (Some \<lparr>UserID = ''user1'', GroupID = ''group1'', Roles = [''admin'']\<rparr>)
     (Some \<lparr>ResourceAttributes.Resource = ''resource1'',
            ResourceAttributes.Namespace = ''namespace1'',
            ResourceAttributes.ReadOnly = True\<rparr>) = Inr True \<and>
   matchPolicy
     \<lparr>Role = ''admin'', User = ''user1'', Group = '''', PolicySpec.Resource = ''resource1'',
      PolicySpec.Namespace = '''', PolicySpec.ReadOnly = False, NonResourcePath = ''''\<rparr>
     (Some \<lparr>UserID = ''user1'', GroupID = ''group1'', Roles = [''admin'']\<rparr>)
     (Some \<lparr>ResourceAttributes.Resource = ''resource1'',
            ResourceAttributes.Namespace = ''namespace1'',
            ResourceAttributes.ReadOnly = True\<rparr>) \<noteq> Inr True"
  using Evaluate_wildcard_rule_readOnly
    [where rule = "\<lparr>Role = ''*'', User = ''*'', Group = ''*'', PolicySpec.Resource = ''*'',
          PolicySpec.Namespace = ''*'', PolicySpec.ReadOnly = True, NonResourcePath = ''*''\<rparr>"
       and u = "\<lparr>UserID = ''user1'', GroupID = ''group1'', Roles = [''admin'']\<rparr>"
       and r = "\<lparr>ResourceAttributes.Resource = ''resource1'',
            ResourceAttributes.Namespace = ''namespace1'',
            ResourceAttributes.ReadOnly = True\<rparr>"
       and policy = "\<lparr>Role = ''admin'', User = ''user1'', Group = '''',
          PolicySpec.Resource = ''resource1'', PolicySpec.Namespace = '''',
          PolicySpec.ReadOnly = False, NonResourcePath = ''''\<rparr>"
       and r' = "\<lparr>ResourceAttributes.Resource = ''resource1'',
            ResourceAttributes.Namespace = ''namespace1'',
            ResourceAttributes.ReadOnly = True\<rparr>"
       and user = "Some \<lparr>UserID = ''user1'', GroupID = ''group1'', Roles = [''admin'']\<rparr>"]
  by simp

subsection \<open>Wildcards, order and the roles list\<close>

text \<open>
  C5: the patterns \<open>*\<close> and the empty string are interchangeable. For every rule, each of
  the six pattern fields (role, user, group, resource, namespace, path) and every request,
  the rule with \<open>*\<close> in that field and the rule with the empty string in that field have the
  same match result, and a store holding the one evaluates as the store holding the other
  in its place.
\<close>

theorem wildcard_empty_interchangeable:
  "matchPolicy (policy\<lparr>Role := ''*''\<rparr>) user resource =
     matchPolicy (policy\<lparr>Role := ''''\<rparr>) user resource \<and>
   matchPolicy (policy\<lparr>User := ''*''\<rparr>) user resource =
     matchPolicy (policy\<lparr>User := ''''\<rparr>) user resource \<and>
   matchPolicy (policy\<lparr>Group := ''*''\<rparr>) user resource =
     matchPolicy (policy\<lparr>Group := ''''\<rparr>) user resource \<and>
   matchPolicy (policy\<lparr>PolicySpec.Resource := ''*''\<rparr>) user resource =
     matchPolicy (policy\<lparr>PolicySpec.Resource := ''''\<rparr>) user resource \<and>
   matchPolicy (policy\<lparr>PolicySpec.Namespace := ''*''\<rparr>) user resource =
     matchPolicy (policy\<lparr>PolicySpec.Namespace := ''''\<rparr>) user resource \<and>
   matchPolicy (policy\<lparr>NonResourcePath := ''*''\<rparr>) user resource =
     matchPolicy (policy\<lparr>NonResourcePath := ''''\<rparr>) user resource \<and>
   Evaluate \<lparr>policies = pre @ policy\<lparr>Role := ''*''\<rparr> # post\<rparr> user resource =
     Evaluate \<lparr>policies = pre @ policy\<lparr>Role := ''''\<rparr> # post\<rparr> user resource \<and>
   Evaluate \<lparr>policies = pre @ policy\<lparr>User := ''*''\<rparr> # post\<rparr> user resource =
     Evaluate \<lparr>policies = pre @ policy\<lparr>User := ''''\<rparr> # post\<rparr> user resource \<and>
   Evaluate \<lparr>policies = pre @ policy\<lparr>Group := ''*''\<rparr> # post\<rparr> user resource =
     Evaluate \<lparr>policies = pre @ policy\<lparr>Group := ''''\<rparr> # post\<rparr> user resource \<and>
   Evaluate \<lparr>policies = pre @ policy\<lparr>PolicySpec.Resource := ''*''\<rparr> # post\<rparr> user resource =
     Evaluate \<lparr>policies = pre @ policy\<lparr>PolicySpec.Resource := ''''\<rparr> # post\<rparr> user resource \<and>
   Evaluate \<lparr>policies = pre @ policy\<lparr>PolicySpec.Namespace := ''*''\<rparr> # post\<rparr> user resource =
     Evaluate \<lparr>policies = pre @ policy\<lparr>PolicySpec.Namespace := ''''\<rparr> # post\<rparr> user resource \<and>
   Evaluate \<lparr>policies = pre @ policy\<lparr>NonResourcePath := ''*''\<rparr> # post\<rparr> user resource =
     Evaluate \<lparr>policies = pre @ policy\<lparr>NonResourcePath := ''''\<rparr> # post\<rparr> user resource"
proof -
  have m1: "matchPolicy (policy\<lparr>Role := ''*''\<rparr>) user resource =
            matchPolicy (policy\<lparr>Role := ''''\<rparr>) user resource"
    by (cases user; cases resource) (simp_all add: matchPolicy_def matchesSlice_wildcard matchesString_wildcard)
  have m2: "matchPolicy (policy\<lparr>User := ''*''\<rparr>) user resource =
            matchPolicy (policy\<lparr>User := ''''\<rparr>) user resource"
    by (cases user; cases resource) (simp_all add: matchPolicy_def matchesSlice_wildcard matchesString_wildcard)
  have m3: "matchPolicy (policy\<lparr>Group := ''*''\<rparr>) user resource =
            matchPolicy (policy\<lparr>Group := ''''\<rparr>) user resource"
    by (cases user; cases resource) (simp_all add: matchPolicy_def matchesSlice_wildcard matchesString_wildcard)
  have m4: "matchPolicy (policy\<lparr>PolicySpec.Resource := ''*''\<rparr>) user resource =
            matchPolicy (policy\<lparr>PolicySpec.Resource := ''''\<rparr>) user resource"
    by (cases user; cases resource) (simp_all add: matchPolicy_def matchesSlice_wildcard matchesString_wildcard)
  have m5: "matchPolicy (policy\<lparr>PolicySpec.Namespace := ''*''\<rparr>) user resource =
            matchPolicy (policy\<lparr>PolicySpec.Namespace := ''''\<rparr>) user resource"
    by (cases user; cases resource) (simp_all add: matchPolicy_def matchesSlice_wildcard matchesString_wildcard)
  have m6: "matchPolicy (policy\<lparr>NonResourcePath := ''*''\<rparr>) user resource =
            matchPolicy (policy\<lparr>NonResourcePath := ''''\<rparr>) user resource"
    by (cases user; cases resource) (simp_all add: matchPolicy_def matchesSlice_wildcard matchesString_wildcard)
  have store: "Evaluate \<lparr>policies = pre @ a # post\<rparr> user resource =
               Evaluate \<lparr>policies = pre @ b # post\<rparr> user resource"
    if "matchPolicy a user resource = matchPolicy b user resource" for a b
    unfolding Evaluate_def using that
    by (simp add: Evaluate_range_outcomes)
  from m1 m2 m3 m4 m5 m6 store [OF m1] store [OF m2] store [OF m3] store [OF m4]
    store [OF m5] store [OF m6]
  show ?thesis by blast
qed

text \<open>
  The rule of the test "Matching policy" with its empty group pattern written \<open>*\<close>: the
  rule matches, and the store holding it evaluates to true.
\<close>

theorem wildcard_empty_interchangeable_witness:
  "matchPolicy
     \<lparr>Role = ''admin'', User = ''user1'', Group = ''*'', PolicySpec.Resource = ''resource1'',
      PolicySpec.Namespace = '''', PolicySpec.ReadOnly = False, NonResourcePath = ''''\<rparr>
     (Some \<lparr>UserID = ''user1'', GroupID = ''group1'', Roles = [''admin'']\<rparr>)
     (Some \<lparr>ResourceAttributes.Resource = ''resource1'',
            ResourceAttributes.Namespace = ''namespace1'',
            ResourceAttributes.ReadOnly = False\<rparr>) =
   matchPolicy
     \<lparr>Role = ''admin'', User = ''user1'', Group = '''', PolicySpec.Resource = ''resource1'',
      PolicySpec.Namespace = '''', PolicySpec.ReadOnly = False, NonResourcePath = ''''\<rparr>
     (Some \<lparr>UserID = ''user1'', GroupID = ''group1'', Roles = [''admin'']\<rparr>)
     (Some \<lparr>ResourceAttributes.Resource = ''resource1'',
            ResourceAttributes.Namespace = ''namespace1'',
            ResourceAttributes.ReadOnly = False\<rparr>) \<and>
   Evaluate
     \<lparr>policies =
        [\<lparr>Role = ''admin'', User = ''user1'', Group = ''*'', PolicySpec.Resource = ''resource1'',
          PolicySpec.Namespace = '''', PolicySpec.ReadOnly = False, NonResourcePath = ''''\<rparr>]\<rparr>
     (Some \<lparr>UserID = ''user1'', GroupID = ''group1'', Roles = [''admin'']\<rparr>)
     (Some \<lparr>ResourceAttributes.Resource = ''resource1'',
            ResourceAttributes.Namespace = ''namespace1'',
            ResourceAttributes.ReadOnly = False\<rparr>) =
   Evaluate
     \<lparr>policies =
        [\<lparr>Role = ''admin'', User = ''user1'', Group = '''', PolicySpec.Resource = ''resource1'',
          PolicySpec.Namespace = '''', PolicySpec.ReadOnly = False, NonResourcePath = ''''\<rparr>]\<rparr>
     (Some \<lparr>UserID = ''user1'', GroupID = ''group1'', Roles = [''admin'']\<rparr>)
     (Some \<lparr>ResourceAttributes.Resource = ''resource1'',
            ResourceAttributes.Namespace = ''namespace1'',
            ResourceAttributes.ReadOnly = False\<rparr>)"
  using wildcard_empty_interchangeable
    [where policy = "\<lparr>Role = ''admin'', User = ''user1'', Group = ''x'',
          PolicySpec.Resource = ''resource1'', PolicySpec.Namespace = '''',
          PolicySpec.ReadOnly = False, NonResourcePath = ''''\<rparr>"
       and user = "Some \<lparr>UserID = ''user1'', GroupID = ''group1'', Roles = [''admin'']\<rparr>"
       and resource = "Some \<lparr>ResourceAttributes.Resource = ''resource1'',
            ResourceAttributes.Namespace = ''namespace1'',
            ResourceAttributes.ReadOnly = False\<rparr>"
       and pre = "[]" and post = "[]"]
  by simp

text \<open>
  C6: order independence. For every store, every permutation of its rules and every
  request, \<open>Evaluate\<close> over the permuted store returns what it returns over the original
  store. Two lists are permutations of each other when they have the same multiset of
  entries. (The same holds for a nil user or a nil resource: every rule that does not
  return false then panics with the same panic.)
\<close>

theorem Evaluate_order_independent:
  assumes "mset (policies p') = mset (policies p)"
  shows "Evaluate p' user resource = Evaluate p user resource"
proof -
  from assms have s: "set (policies p') = set (policies p)"
    by (rule mset_eq_setD)
  show ?thesis
  proof (cases user)
    case None
    with s show ?thesis
      by (simp add: Evaluate_def Evaluate_range_nil_user flip: set_empty)
  next
    case (Some u)
    with s show ?thesis
      by (cases resource)
        (simp_all add: Evaluate_def Evaluate_range_nil_resource Evaluate_range_present)
  qed
qed

text \<open>
  A rule for \<open>user1\<close> and a rule for \<open>user2\<close>, in both orders, on a request of
  \<open>user2\<close>: the result is true in the one order, so it is in the other.
\<close>

theorem Evaluate_order_independent_witness:
  "Evaluate
     \<lparr>policies =
        [\<lparr>Role = ''*'', User = ''user2'', Group = '''', PolicySpec.Resource = ''*'',
          PolicySpec.Namespace = '''', PolicySpec.ReadOnly = False, NonResourcePath = ''''\<rparr>,
         \<lparr>Role = ''admin'', User = ''user1'', Group = '''', PolicySpec.Resource = ''resource1'',
          PolicySpec.Namespace = '''', PolicySpec.ReadOnly = False, NonResourcePath = ''''\<rparr>]\<rparr>
     (Some \<lparr>UserID = ''user2'', GroupID = ''group1'', Roles = [''admin'']\<rparr>)
     (Some \<lparr>ResourceAttributes.Resource = ''resource1'',
            ResourceAttributes.Namespace = ''namespace1'',
            ResourceAttributes.ReadOnly = False\<rparr>) = Inr True"
proof -
  let ?a = "\<lparr>Role = ''admin'', User = ''user1'', Group = '''',
    PolicySpec.Resource = ''resource1'', PolicySpec.Namespace = '''',
    PolicySpec.ReadOnly = False, NonResourcePath = ''''\<rparr>"
  let ?b = "\<lparr>Role = ''*'', User = ''user2'', Group = '''', PolicySpec.Resource = ''*'',
    PolicySpec.Namespace = '''', PolicySpec.ReadOnly = False, NonResourcePath = ''''\<rparr>"
  let ?u = "Some \<lparr>UserID = ''user2'', GroupID = ''group1'', Roles = [''admin'']\<rparr>"
  let ?r = "Some \<lparr>ResourceAttributes.Resource = ''resource1'',
    ResourceAttributes.Namespace = ''namespace1'', ResourceAttributes.ReadOnly = False\<rparr>"
  have perm: "mset (policies \<lparr>policies = [?b, ?a]\<rparr>) = mset (policies \<lparr>policies = [?a, ?b]\<rparr>)"
    by simp
  have "Evaluate \<lparr>policies = [?a, ?b]\<rparr> ?u ?r = Inr True"
    by (simp add: Evaluate_def matchPolicy_present matchesSlice_set matchesString_def)
  with Evaluate_order_independent [OF perm, of ?u ?r] show ?thesis
    by simp
qed

text \<open>
  C7: the order of the user's roles and the repetition of a role do not matter. For every
  rule, every store and every request, two role lists with the same set of entries give the
  same match result and the same \<open>Evaluate\<close> result; and a role pattern that is not a
  wildcard matches if and only if it equals at least one entry of the list.
\<close>

theorem Roles_treated_as_set:
  assumes "set roles' = set roles"
  shows
    "matchPolicy policy (Some (u\<lparr>Roles := roles'\<rparr>)) resource =
       matchPolicy policy (Some (u\<lparr>Roles := roles\<rparr>)) resource \<and>
     Evaluate p (Some (u\<lparr>Roles := roles'\<rparr>)) resource =
       Evaluate p (Some (u\<lparr>Roles := roles\<rparr>)) resource \<and>
     (pattern \<noteq> ''*'' \<and> pattern \<noteq> '''' \<longrightarrow>
        matchesSlice pattern roles = (\<exists>v \<in> set roles. v = pattern))"
proof -
  have slice: "matchesSlice pat roles' = matchesSlice pat roles" for pat
    using assms by (simp add: matchesSlice_set)
  have m: "matchPolicy q (Some (u\<lparr>Roles := roles'\<rparr>)) resource =
           matchPolicy q (Some (u\<lparr>Roles := roles\<rparr>)) resource" for q
    by (simp add: matchPolicy_def slice)
  have "Evaluate_range ps (Some (u\<lparr>Roles := roles'\<rparr>)) resource =
        Evaluate_range ps (Some (u\<lparr>Roles := roles\<rparr>)) resource" for ps
    by (induction ps) (simp_all add: m split: sum.splits)
  then have "Evaluate p (Some (u\<lparr>Roles := roles'\<rparr>)) resource =
             Evaluate p (Some (u\<lparr>Roles := roles\<rparr>)) resource"
    by (simp add: Evaluate_def)
  moreover have "matchesSlice pattern roles = (\<exists>v \<in> set roles. v = pattern)"
    if "pattern \<noteq> ''*''" "pattern \<noteq> ''''"
    using that by (auto simp: matchesSlice_set)
  ultimately show ?thesis using m by blast
qed

text \<open>
  The roles \<open>guest, admin, guest\<close> against the roles \<open>admin, guest\<close>: the rule for the
  role \<open>admin\<close> matches the one list, so it matches the other.
\<close>

theorem Roles_treated_as_set_witness:
  "matchPolicy
     \<lparr>Role = ''admin'', User = ''user1'', Group = '''', PolicySpec.Resource = ''resource1'',
      PolicySpec.Namespace = '''', PolicySpec.ReadOnly = False, NonResourcePath = ''''\<rparr>
     (Some \<lparr>UserID = ''user1'', GroupID = ''group1'', Roles = [''guest'', ''admin'', ''guest'']\<rparr>)
     (Some \<lparr>ResourceAttributes.Resource = ''resource1'',
            ResourceAttributes.Namespace = ''namespace1'',
            ResourceAttributes.ReadOnly = False\<rparr>) = Inr True \<and>
   matchesSlice ''admin'' [''admin'', ''guest'']"
proof -
  let ?a = "\<lparr>Role = ''admin'', User = ''user1'', Group = '''',
    PolicySpec.Resource = ''resource1'', PolicySpec.Namespace = '''',
    PolicySpec.ReadOnly = False, NonResourcePath = ''''\<rparr>"
  let ?u = "\<lparr>UserID = ''user1'', GroupID = ''group1'', Roles = []\<rparr>"
  let ?r = "Some \<lparr>ResourceAttributes.Resource = ''resource1'',
    ResourceAttributes.Namespace = ''namespace1'', ResourceAttributes.ReadOnly = False\<rparr>"
  have same: "set [''guest'', ''admin'', ''guest''] = set [''admin'', ''guest'']"
    by auto
  have "matchPolicy ?a (Some (?u\<lparr>Roles := [''admin'', ''guest'']\<rparr>)) ?r = Inr True"
    by (simp add: matchPolicy_def matchesSlice_def matchesString_def)
  with Roles_treated_as_set [OF same, of ?a ?u ?r _ "''admin''"] show ?thesis
    by simp
qed

subsection \<open>The default rules and the construction of a store\<close>

text \<open>
  C8: the default table that \<open>WithDefaultPolicies\<close> appends has exactly two rules, in this
  order: the read-only rule with every pattern \<open>*\<close>, and the rule for the role \<open>admin\<close>,
  not read-only, with every other pattern \<open>*\<close>. So a store containing the defaults
  evaluates every read-only request to true, and every request that is not read-only to
  true when \<open>admin\<close> is among the user's roles.
\<close>

theorem defaultPolicies_two_rules:
  "defaultPolicies =
     [\<lparr>Role = ''*'', User = ''*'', Group = ''*'', PolicySpec.Resource = ''*'',
       PolicySpec.Namespace = ''*'', PolicySpec.ReadOnly = True, NonResourcePath = ''*''\<rparr>,
      \<lparr>Role = ''admin'', User = ''*'', Group = ''*'', PolicySpec.Resource = ''*'',
       PolicySpec.Namespace = ''*'', PolicySpec.ReadOnly = False, NonResourcePath = ''*''\<rparr>] \<and>
   WithDefaultPolicies p0 = Inr (p0\<lparr>policies := policies p0 @ defaultPolicies\<rparr>) \<and>
   NewPolicyManager [WithDefaultPolicies] = Inr \<lparr>policies = defaultPolicies\<rparr> \<and>
   (set defaultPolicies \<subseteq> set (policies p) \<longrightarrow>
      (ResourceAttributes.ReadOnly r \<longrightarrow> Evaluate p (Some u) (Some r) = Inr True) \<and>
      (''admin'' \<in> set (Roles u) \<and> \<not> ResourceAttributes.ReadOnly r \<longrightarrow>
         Evaluate p (Some u) (Some r) = Inr True))"
proof -
  let ?r1 = "\<lparr>Role = ''*'', User = ''*'', Group = ''*'', PolicySpec.Resource = ''*'',
    PolicySpec.Namespace = ''*'', PolicySpec.ReadOnly = True, NonResourcePath = ''*''\<rparr>"
  let ?r2 = "\<lparr>Role = ''admin'', User = ''*'', Group = ''*'', PolicySpec.Resource = ''*'',
    PolicySpec.Namespace = ''*'', PolicySpec.ReadOnly = False, NonResourcePath = ''*''\<rparr>"
  have m1: "matchPolicy ?r1 (Some u) (Some r) = Inr True" if "ResourceAttributes.ReadOnly r"
    using that by (simp add: matchPolicy_present matchesSlice_set matchesString_def)
  have m2: "matchPolicy ?r2 (Some u) (Some r) = Inr True"
    if "''admin'' \<in> set (Roles u)" "\<not> ResourceAttributes.ReadOnly r"
    using that by (simp add: matchPolicy_present matchesSlice_set matchesString_def)
  have e1: "Evaluate p (Some u) (Some r) = Inr True"
    if "set defaultPolicies \<subseteq> set (policies p)" "ResourceAttributes.ReadOnly r"
  proof -
    from that(1) have "?r1 \<in> set (policies p)" by (simp add: defaultPolicies_def)
    with m1 [OF that(2)] show ?thesis
      unfolding Evaluate_def Evaluate_range_present by blast
  qed
  have e2: "Evaluate p (Some u) (Some r) = Inr True"
    if "set defaultPolicies \<subseteq> set (policies p)" "''admin'' \<in> set (Roles u)"
      "\<not> ResourceAttributes.ReadOnly r"
  proof -
    from that(1) have "?r2 \<in> set (policies p)" by (simp add: defaultPolicies_def)
    with m2 [OF that(2,3)] show ?thesis
      unfolding Evaluate_def Evaluate_range_present by blast
  qed
  have "NewPolicyManager [WithDefaultPolicies] = Inr \<lparr>policies = defaultPolicies\<rparr>"
    by (simp add: NewPolicyManager_def WithDefaultPolicies_def)
  moreover have "defaultPolicies = [?r1, ?r2]"
    by (simp add: defaultPolicies_def)
  moreover have "WithDefaultPolicies p0 = Inr (p0\<lparr>policies := policies p0 @ defaultPolicies\<rparr>)"
    by (simp add: WithDefaultPolicies_def)
  ultimately show ?thesis using e1 e2 by blast
qed

text \<open>
  The store built from the rule of the test "Matching policy" followed by the defaults: a
  read-only request of a user without roles, and a write of an \<open>admin\<close>, are allowed.
\<close>

theorem defaultPolicies_two_rules_witness:
  "Evaluate
     \<lparr>policies =
        \<lparr>Role = ''admin'', User = ''user1'', Group = '''', PolicySpec.Resource = ''resource1'',
          PolicySpec.Namespace = '''', PolicySpec.ReadOnly = False, NonResourcePath = ''''\<rparr> #
        defaultPolicies\<rparr>
     (Some \<lparr>UserID = ''user2'', GroupID = ''group1'', Roles = []\<rparr>)
     (Some \<lparr>ResourceAttributes.Resource = ''resource2'',
            ResourceAttributes.Namespace = ''namespace1'',
            ResourceAttributes.ReadOnly = True\<rparr>) = Inr True \<and>
   Evaluate
     \<lparr>policies =
        \<lparr>Role = ''admin'', User = ''user1'', Group = '''', PolicySpec.Resource = ''resource1'',
          PolicySpec.Namespace = '''', PolicySpec.ReadOnly = False, NonResourcePath = ''''\<rparr> #
        defaultPolicies\<rparr>
     (Some \<lparr>UserID = ''user2'', GroupID = ''group1'', Roles = [''guest'', ''admin'']\<rparr>)
     (Some \<lparr>ResourceAttributes.Resource = ''resource2'',
            ResourceAttributes.Namespace = ''namespace1'',
            ResourceAttributes.ReadOnly = False\<rparr>) = Inr True"
proof -
  let ?p = "\<lparr>policies =
        \<lparr>Role = ''admin'', User = ''user1'', Group = '''', PolicySpec.Resource = ''resource1'',
          PolicySpec.Namespace = '''', PolicySpec.ReadOnly = False, NonResourcePath = ''''\<rparr> #
        defaultPolicies\<rparr>"
  have sub: "set defaultPolicies \<subseteq> set (policies ?p)"
    by auto
  show ?thesis
    using sub
      defaultPolicies_two_rules [where p = ?p
        and u = "\<lparr>UserID = ''user2'', GroupID = ''group1'', Roles = []\<rparr>"
        and r = "\<lparr>ResourceAttributes.Resource = ''resource2'',
            ResourceAttributes.Namespace = ''namespace1'',
            ResourceAttributes.ReadOnly = True\<rparr>"]
      defaultPolicies_two_rules [where p = ?p
        and u = "\<lparr>UserID = ''user2'', GroupID = ''group1'', Roles = [''guest'', ''admin'']\<rparr>"
        and r = "\<lparr>ResourceAttributes.Resource = ''resource2'',
            ResourceAttributes.Namespace = ''namespace1'',
            ResourceAttributes.ReadOnly = False\<rparr>"]
    by simp
qed

text \<open>
  C9: a rule whose resource pattern and path pattern are both not wildcards and differ
  from each other matches no request: both are compared with the resource's name. Such a
  rule changes no \<open>Evaluate\<close> result: the store with the rule evaluates every request as the
  store without it.
\<close>

theorem dead_rule_matches_nothing:
  assumes "PolicySpec.Resource policy \<noteq> ''*''" and "PolicySpec.Resource policy \<noteq> ''''"
    and "NonResourcePath policy \<noteq> ''*''" and "NonResourcePath policy \<noteq> ''''"
    and "PolicySpec.Resource policy \<noteq> NonResourcePath policy"
  shows
    "matchPolicy policy (Some u) (Some r) = Inr False \<and>
     Evaluate \<lparr>policies = pre @ policy # post\<rparr> (Some u) (Some r) =
       Evaluate \<lparr>policies = pre @ post\<rparr> (Some u) (Some r)"
proof -
  have m: "matchPolicy policy (Some u) (Some r) = Inr False"
    using assms by (auto simp: matchPolicy_present matchesString_def)
  then have "Evaluate \<lparr>policies = pre @ policy # post\<rparr> (Some u) (Some r) =
             Evaluate \<lparr>policies = pre @ post\<rparr> (Some u) (Some r)"
    by (auto simp: Evaluate_def Evaluate_range_present)
  with m show ?thesis by simp
qed

text \<open>
  A rule with resource pattern \<open>resource1\<close> and path pattern \<open>/foo\<close>, every other pattern a
  wildcard, on a request for \<open>resource1\<close> and on a request for \<open>/foo\<close>.
\<close>

theorem dead_rule_matches_nothing_witness:
  "matchPolicy
     \<lparr>Role = ''*'', User = ''*'', Group = ''*'', PolicySpec.Resource = ''resource1'',
      PolicySpec.Namespace = ''*'', PolicySpec.ReadOnly = False, NonResourcePath = ''/foo''\<rparr>
     (Some \<lparr>UserID = ''user1'', GroupID = ''group1'', Roles = [''admin'']\<rparr>)
     (Some \<lparr>ResourceAttributes.Resource = ''resource1'',
            ResourceAttributes.Namespace = ''namespace1'',
            ResourceAttributes.ReadOnly = False\<rparr>) = Inr False \<and>
   matchPolicy
     \<lparr>Role = ''*'', User = ''*'', Group = ''*'', PolicySpec.Resource = ''resource1'',
      PolicySpec.Namespace = ''*'', PolicySpec.ReadOnly = False, NonResourcePath = ''/foo''\<rparr>
     (Some \<lparr>UserID = ''user1'', GroupID = ''group1'', Roles = [''admin'']\<rparr>)
     (Some \<lparr>ResourceAttributes.Resource = ''/foo'',
            ResourceAttributes.Namespace = ''namespace1'',
            ResourceAttributes.ReadOnly = False\<rparr>) = Inr False"
  using
    dead_rule_matches_nothing
      [where policy = "\<lparr>Role = ''*'', User = ''*'', Group = ''*'',
          PolicySpec.Resource = ''resource1'', PolicySpec.Namespace = ''*'',
          PolicySpec.ReadOnly = False, NonResourcePath = ''/foo''\<rparr>"
        and u = "\<lparr>UserID = ''user1'', GroupID = ''group1'', Roles = [''admin'']\<rparr>"
        and r = "\<lparr>ResourceAttributes.Resource = ''resource1'',
            ResourceAttributes.Namespace = ''namespace1'',
            ResourceAttributes.ReadOnly = False\<rparr>"]
    dead_rule_matches_nothing
      [where policy = "\<lparr>Role = ''*'', User = ''*'', Group = ''*'',
          PolicySpec.Resource = ''resource1'', PolicySpec.Namespace = ''*'',
          PolicySpec.ReadOnly = False, NonResourcePath = ''/foo''\<rparr>"
        and u = "\<lparr>UserID = ''user1'', GroupID = ''group1'', Roles = [''admin'']\<rparr>"
        and r = "\<lparr>ResourceAttributes.Resource = ''/foo'',
            ResourceAttributes.Namespace = ''namespace1'',
            ResourceAttributes.ReadOnly = False\<rparr>"]
  by simp

text \<open>
  C10: for every two rule lists \<open>s\<close> and \<open>t\<close> and every request, \<open>Evaluate\<close> over the store
  \<open>s @ t\<close> is the disjunction of \<open>Evaluate\<close> over \<open>s\<close> and \<open>Evaluate\<close> over \<open>t\<close>.
  \<open>WithPolicies\<close> and \<open>WithDefaultPolicies\<close> append to the store, so applying one of them
  to a manager never turns a result of true into another result.
\<close>

theorem Evaluate_append_disjunction:
  "Evaluate \<lparr>policies = s @ t\<rparr> (Some u) (Some r) =
     Inr (Evaluate \<lparr>policies = s\<rparr> (Some u) (Some r) = Inr True \<or>
          Evaluate \<lparr>policies = t\<rparr> (Some u) (Some r) = Inr True) \<and>
   WithPolicies ps p = Inr (p\<lparr>policies := policies p @ ps\<rparr>) \<and>
   WithDefaultPolicies p = Inr (p\<lparr>policies := policies p @ defaultPolicies\<rparr>) \<and>
   (Evaluate p user resource = Inr True \<longrightarrow>
      Evaluate (p\<lparr>policies := policies p @ ps\<rparr>) user resource = Inr True \<and>
      Evaluate (p\<lparr>policies := policies p @ defaultPolicies\<rparr>) user resource = Inr True)"
proof -
  have "Evaluate \<lparr>policies = s @ t\<rparr> (Some u) (Some r) =
     Inr (Evaluate \<lparr>policies = s\<rparr> (Some u) (Some r) = Inr True \<or>
          Evaluate \<lparr>policies = t\<rparr> (Some u) (Some r) = Inr True)"
    by (auto simp: Evaluate_def Evaluate_range_present)
  moreover have "Evaluate (p\<lparr>policies := policies p @ qs\<rparr>) user resource = Inr True"
    if "Evaluate p user resource = Inr True" for qs
    using that by (simp add: Evaluate_def Evaluate_range_append_true)
  ultimately show ?thesis
    by (simp add: WithPolicies_def WithDefaultPolicies_def)
qed

text \<open>
  The rule of the test "Matching policy" with the defaults appended by
  \<open>WithDefaultPolicies\<close>: the request of the test stays allowed.
\<close>

theorem Evaluate_append_disjunction_witness:
  "Evaluate
     \<lparr>policies =
        [\<lparr>Role = ''admin'', User = ''user1'', Group = '''', PolicySpec.Resource = ''resource1'',
          PolicySpec.Namespace = '''', PolicySpec.ReadOnly = False, NonResourcePath = ''''\<rparr>] @
        defaultPolicies\<rparr>
     (Some \<lparr>UserID = ''user1'', GroupID = ''group1'', Roles = [''admin'']\<rparr>)
     (Some \<lparr>ResourceAttributes.Resource = ''resource1'',
            ResourceAttributes.Namespace = ''namespace1'',
            ResourceAttributes.ReadOnly = False\<rparr>) = Inr True"
proof -
  let ?p = "\<lparr>policies =
        [\<lparr>Role = ''admin'', User = ''user1'', Group = '''', PolicySpec.Resource = ''resource1'',
          PolicySpec.Namespace = '''', PolicySpec.ReadOnly = False, NonResourcePath = ''''\<rparr>]\<rparr>"
  let ?u = "Some \<lparr>UserID = ''user1'', GroupID = ''group1'', Roles = [''admin'']\<rparr>"
  let ?r = "Some \<lparr>ResourceAttributes.Resource = ''resource1'',
            ResourceAttributes.Namespace = ''namespace1'',
            ResourceAttributes.ReadOnly = False\<rparr>"
  have "Evaluate ?p ?u ?r = Inr True"
    by (simp add: Evaluate_def matchPolicy_present matchesSlice_set matchesString_def)
  with Evaluate_append_disjunction [where p = ?p and user = ?u and resource = ?r]
  show ?thesis by simp
qed

end
